theory Spec2Isabelle
  imports Complex_Main "HOL-Library.Multiset"
begin

section \<open>Data model\<close>

text \<open>
  The handlers of the podcast module work on one table of podcast documents, one table
  of users and the file storage of the host. Identifiers are opaque; they are modelled
  by natural numbers. A JavaScript number is a float64. \<open>views\<close> is a count: the model
  holds its integer values as an \<open>int\<close>, and the handlers that add to it round the sum
  as float64 addition does (\<open>float64_round\<close> below). \<open>audioDuration\<close> is a number of
  seconds that is only stored and tested against 0; it is a \<open>real\<close>. The document field
  \<^verbatim>\<open>_id\<close> is called \<open>doc_id\<close> here.
\<close>

type_synonym podcast_id = nat
type_synonym user_id = nat
type_synonym storage_id = nat

record Podcast =
  doc_id :: podcast_id
  audioStorageId :: storage_id
  user :: user_id
  podcastTitle :: string
  podcastDescription :: string
  audioUrl :: string
  imageUrl :: string
  imageStorageId :: storage_id
  author :: string
  authorId :: string
  voicePrompt :: string
  imagePrompt :: string
  voiceType :: string
  categoryType :: string
  views :: int
  authorImageUrl :: string
  audioDuration :: real

record User =
  user_doc_id :: user_id
  clerkId :: string
  email :: string
  name :: string
  user_imageUrl :: string

record Identity =
  identity_email :: string

text \<open>
  The context a handler receives: the identity of the caller (absent when the caller is
  not signed in), the two tables and the file storage. \<open>podcasts\<close> lists the documents
  of the table in the order of their creation, oldest first, which is the order in which
  a query without \<^verbatim>\<open>order\<close> collects them; \<open>files\<close> is the set of storage ids that
  hold a file. A mutation returns the context it leaves behind.
\<close>

record Ctx =
  auth :: "Identity option"
  podcasts :: "Podcast list"
  users :: "User list"
  files :: "storage_id set"

text \<open>
  The handlers throw \<^verbatim>\<open>ConvexError\<close> with a message. \<open>FileNotFound\<close> is the rejection
  by the host's \<^verbatim>\<open>storage.delete\<close> of an id that holds no file.
\<close>

datatype error = ConvexError string | FileNotFound storage_id

definition Unauthenticated :: error where
  "Unauthenticated = ConvexError ''User not authenticated''"

definition UserNotFound :: error where
  "UserNotFound = ConvexError ''User not found''"

definition NotFound :: error where
  "NotFound = ConvexError ''Podcast not found''"

text \<open>The interface \<^verbatim>\<open>PodcastUpdate\<close>: every field is optional.\<close>

record PodcastUpdate =
  upd_podcastTitle :: "string option"
  upd_podcastDescription :: "string option"
  upd_audioUrl :: "string option"
  upd_imageUrl :: "string option"
  upd_voicePrompt :: "string option"
  upd_imagePrompt :: "string option"
  upd_voiceType :: "string option"
  upd_categoryType :: "string option"
  upd_views :: "int option"
  upd_audioDuration :: "real option"
  upd_audioStorageId :: "storage_id option"
  upd_imageStorageId :: "storage_id option"

definition no_updates :: PodcastUpdate where
  "no_updates = \<lparr>upd_podcastTitle = None, upd_podcastDescription = None,
     upd_audioUrl = None, upd_imageUrl = None, upd_voicePrompt = None,
     upd_imagePrompt = None, upd_voiceType = None, upd_categoryType = None,
     upd_views = None, upd_audioDuration = None, upd_audioStorageId = None,
     upd_imageStorageId = None\<rparr>"

subsection \<open>Record store adapter\<close>

definition db_get :: "Ctx \<Rightarrow> podcast_id \<Rightarrow> Podcast option" where
  "db_get ctx pid = find (\<lambda>p. doc_id p = pid) (podcasts ctx)"

definition patched :: "'a option \<Rightarrow> 'a \<Rightarrow> 'a" where
  "patched new old = (case new of None \<Rightarrow> old | Some v \<Rightarrow> v)"

text \<open>A patch is a shallow merge: the fields present in the update replace the stored ones.\<close>

definition apply_update :: "PodcastUpdate \<Rightarrow> Podcast \<Rightarrow> Podcast" where
  "apply_update u p = p
     \<lparr>podcastTitle := patched (upd_podcastTitle u) (podcastTitle p),
      podcastDescription := patched (upd_podcastDescription u) (podcastDescription p),
      audioUrl := patched (upd_audioUrl u) (audioUrl p),
      imageUrl := patched (upd_imageUrl u) (imageUrl p),
      voicePrompt := patched (upd_voicePrompt u) (voicePrompt p),
      imagePrompt := patched (upd_imagePrompt u) (imagePrompt p),
      voiceType := patched (upd_voiceType u) (voiceType p),
      categoryType := patched (upd_categoryType u) (categoryType p),
      views := patched (upd_views u) (views p),
      audioDuration := patched (upd_audioDuration u) (audioDuration p),
      audioStorageId := patched (upd_audioStorageId u) (audioStorageId p),
      imageStorageId := patched (upd_imageStorageId u) (imageStorageId p)\<rparr>"

text \<open>
  The handlers call \<open>db_patch\<close> and \<open>db_delete\<close> only after \<open>db_get\<close> has found the
  document.
\<close>

definition db_patch :: "Ctx \<Rightarrow> podcast_id \<Rightarrow> PodcastUpdate \<Rightarrow> Ctx" where
  "db_patch ctx pid u =
     ctx\<lparr>podcasts := map (\<lambda>p. if doc_id p = pid then apply_update u p else p) (podcasts ctx)\<rparr>"

definition db_delete :: "Ctx \<Rightarrow> podcast_id \<Rightarrow> Ctx" where
  "db_delete ctx pid = ctx\<lparr>podcasts := filter (\<lambda>p. doc_id p \<noteq> pid) (podcasts ctx)\<rparr>"

definition query_desc :: "Ctx \<Rightarrow> Podcast list" where
  "query_desc ctx = rev (podcasts ctx)"

definition storage_delete :: "Ctx \<Rightarrow> storage_id \<Rightarrow> error + Ctx" where
  "storage_delete ctx sid =
     (if sid \<in> files ctx then Inr (ctx\<lparr>files := files ctx - {sid}\<rparr>)
      else Inl (FileNotFound sid))"

subsection \<open>JavaScript values\<close>

definition truthy_string :: "string \<Rightarrow> bool" where
  "truthy_string s = (s \<noteq> [])"

definition truthy_number :: "real \<Rightarrow> bool" where
  "truthy_number x = (x \<noteq> 0)"

definition or_string :: "string \<Rightarrow> string \<Rightarrow> string" where
  "or_string a b = (if truthy_string a then a else b)"

text \<open>
  Addition of numbers with integer values. A float64 has 53 significant bits: an integer
  of magnitude up to \<open>2 ^ 53\<close> is a float64, a larger one is rounded to the nearest
  integer with 53 significant bits, a tie going to the even significand.
  \<open>bit_length m\<close> is the number of binary digits of \<open>m\<close>.
\<close>

function bit_length :: "int \<Rightarrow> nat" where
  "bit_length n = (if n \<le> 0 then 0 else Suc (bit_length (n div 2)))"
  by pat_completeness auto
termination
  by (relation "measure nat") auto

declare bit_length.simps [simp del]

definition float64_round :: "int \<Rightarrow> int" where
  "float64_round n =
     (let m = \<bar>n\<bar>
      in if m \<le> 2 ^ 53 then n
         else
           (let e = bit_length m - 53;
                q = m div 2 ^ e;
                r = m mod 2 ^ e;
                h = 2 ^ (e - 1);
                q' = (if r < h then q else if h < r then q + 1
                      else if even q then q else q + 1)
            in sgn n * (q' * 2 ^ e)))"

text \<open>
  A sum whose rounded magnitude reaches \<open>2 ^ 1024\<close> is infinite, and an infinite sum
  stays infinite when a finite number is added. Adding 1 to a float64 never reaches
  \<open>2 ^ 1024\<close>, so the sum that \<^verbatim>\<open>updatePodcastViews\<close> writes is \<open>float64_round\<close> of
  the exact sum.
\<close>

datatype number = Finite int | PosInfinity | NegInfinity

definition float64_sum :: "int \<Rightarrow> int \<Rightarrow> number" where
  "float64_sum a b =
     (let s = float64_round (a + b)
      in if 2 ^ 1024 \<le> s then PosInfinity
         else if s \<le> - (2 ^ 1024) then NegInfinity
         else Finite s)"

fun number_add :: "number \<Rightarrow> int \<Rightarrow> number" where
  "number_add (Finite a) b = float64_sum a b"
| "number_add PosInfinity b = PosInfinity"
| "number_add NegInfinity b = NegInfinity"

text \<open>
  \<^verbatim>\<open>Array.prototype.sort\<close> with a comparator: a stable sort that puts \<open>a\<close> before \<open>b\<close>
  when \<open>cmp a b < 0\<close> and keeps their order when \<open>cmp a b = 0\<close>.
\<close>

fun insert_by :: "('a \<Rightarrow> 'a \<Rightarrow> int) \<Rightarrow> 'a \<Rightarrow> 'a list \<Rightarrow> 'a list" where
  "insert_by cmp x [] = [x]"
| "insert_by cmp x (y # ys) =
     (if cmp x y \<le> 0 then x # y # ys else y # insert_by cmp x ys)"

definition array_sort :: "('a \<Rightarrow> 'a \<Rightarrow> int) \<Rightarrow> 'a list \<Rightarrow> 'a list" where
  "array_sort cmp xs = foldr (insert_by cmp) xs []"

definition slice :: "nat \<Rightarrow> nat \<Rightarrow> 'a list \<Rightarrow> 'a list" where
  "slice i j xs = take (j - i) (drop i xs)"

definition reduce :: "('b \<Rightarrow> 'a \<Rightarrow> 'b) \<Rightarrow> 'b \<Rightarrow> 'a list \<Rightarrow> 'b" where
  "reduce f z xs = foldl f z xs"

text \<open>
  Case conversion of one character, for the letters of ASCII (the category labels have
  no other letters).
\<close>

definition toUpperCase_char :: "char \<Rightarrow> char" where
  "toUpperCase_char c =
     (let n = (of_char c :: nat) in if 97 \<le> n \<and> n \<le> 122 then char_of (n - 32) else c)"

definition toLowerCase_char :: "char \<Rightarrow> char" where
  "toLowerCase_char c =
     (let n = (of_char c :: nat) in if 65 \<le> n \<and> n \<le> 90 then char_of (n + 32) else c)"

section \<open>Mutations\<close>

record UpdateArgs =
  arg_podcastId :: podcast_id
  arg_podcastTitle :: string
  arg_podcastDescription :: string
  arg_audioUrl :: string
  arg_imageUrl :: string
  arg_voicePrompt :: string
  arg_imagePrompt :: string
  arg_voiceType :: string
  arg_categoryType :: string
  arg_views :: int
  arg_audioDuration :: real
  arg_audioStorageId :: storage_id
  arg_imageStorageId :: storage_id

text \<open>
  \<^verbatim>\<open>updatePodcast\<close>. The validator requires \<^verbatim>\<open>views\<close>, so the test
  \<^verbatim>\<open>args.views !== undefined\<close> always holds and \<open>upd_views\<close> is always set.
\<close>

definition updatePodcast :: "Ctx \<Rightarrow> UpdateArgs \<Rightarrow> error + Ctx" where
  "updatePodcast ctx args =
     (case auth ctx of
        None \<Rightarrow> Inl Unauthenticated
      | Some identity \<Rightarrow>
          (case db_get ctx (arg_podcastId args) of
             None \<Rightarrow> Inl NotFound
           | Some podcast \<Rightarrow>
               (let updates = no_updates;
                    updates = (if truthy_string (arg_podcastTitle args)
                      then updates\<lparr>upd_podcastTitle := Some (arg_podcastTitle args)\<rparr>
                      else updates);
                    updates = (if truthy_string (arg_podcastDescription args)
                      then updates\<lparr>upd_podcastDescription := Some (arg_podcastDescription args)\<rparr>
                      else updates);
                    updates = (if truthy_string (arg_audioUrl args)
                      then updates\<lparr>upd_audioUrl := Some (arg_audioUrl args)\<rparr>
                      else updates);
                    updates = (if truthy_string (arg_imageUrl args)
                      then updates\<lparr>upd_imageUrl := Some (arg_imageUrl args)\<rparr>
                      else updates);
                    updates = (if truthy_string (arg_voicePrompt args)
                      then updates\<lparr>upd_voicePrompt := Some (arg_voicePrompt args)\<rparr>
                      else updates);
                    updates = (if truthy_string (arg_imagePrompt args)
                      then updates\<lparr>upd_imagePrompt := Some (arg_imagePrompt args)\<rparr>
                      else updates);
                    updates = (if truthy_string (arg_voiceType args)
                      then updates\<lparr>upd_voiceType := Some (arg_voiceType args)\<rparr>
                      else updates);
                    updates = (if truthy_string (arg_categoryType args)
                      then updates\<lparr>upd_categoryType := Some (arg_categoryType args)\<rparr>
                      else updates);
                    updates = updates\<lparr>upd_views := Some (arg_views args)\<rparr>;
                    updates = (if truthy_number (arg_audioDuration args)
                      then updates\<lparr>upd_audioDuration := Some (arg_audioDuration args)\<rparr>
                      else updates);
                    updates = updates\<lparr>upd_audioStorageId := Some (arg_audioStorageId args)\<rparr>;
                    updates = updates\<lparr>upd_imageStorageId := Some (arg_imageStorageId args)\<rparr>
                in Inr (db_patch ctx (arg_podcastId args) updates))))"

definition updatePodcastViews :: "Ctx \<Rightarrow> podcast_id \<Rightarrow> error + Ctx" where
  "updatePodcastViews ctx pid =
     (case db_get ctx pid of
        None \<Rightarrow> Inl NotFound
      | Some podcast \<Rightarrow>
          Inr (db_patch ctx pid
                 (no_updates\<lparr>upd_views := Some (float64_round (views podcast + 1))\<rparr>)))"

record DeleteArgs =
  del_podcastId :: podcast_id
  del_imageStorageId :: storage_id
  del_audioStorageId :: storage_id

definition deletePodcast :: "Ctx \<Rightarrow> DeleteArgs \<Rightarrow> error + Ctx" where
  "deletePodcast ctx args =
     (case db_get ctx (del_podcastId args) of
        None \<Rightarrow> Inl NotFound
      | Some podcast \<Rightarrow>
          (case storage_delete ctx (del_imageStorageId args) of
             Inl e \<Rightarrow> Inl e
           | Inr ctx1 \<Rightarrow>
               (case storage_delete ctx1 (del_audioStorageId args) of
                  Inl e \<Rightarrow> Inl e
                | Inr ctx2 \<Rightarrow> Inr (db_delete ctx2 (del_podcastId args)))))"

section \<open>Queries\<close>

definition getPodcastById :: "Ctx \<Rightarrow> podcast_id \<Rightarrow> Podcast option" where
  "getPodcastById ctx pid = db_get ctx pid"

definition getAllPodcasts :: "Ctx \<Rightarrow> Podcast list" where
  "getAllPodcasts ctx = query_desc ctx"

text \<open>
  \<^verbatim>\<open>getPodcastByVoiceType\<close>: \<^verbatim>\<open>podcast?.voiceType\<close> is undefined when the document is
  absent, and no stored voice type equals it.
\<close>

definition getPodcastByVoiceType :: "Ctx \<Rightarrow> podcast_id \<Rightarrow> Podcast list" where
  "getPodcastByVoiceType ctx pid =
     (let podcast = db_get ctx pid
      in filter (\<lambda>d. Some (voiceType d) = map_option voiceType podcast \<and> doc_id d \<noteq> pid)
           (podcasts ctx))"

definition getPodcastByCategoryType :: "Ctx \<Rightarrow> string \<Rightarrow> Podcast list" where
  "getPodcastByCategoryType ctx cat = filter (\<lambda>p. categoryType p = cat) (podcasts ctx)"

definition getTrendingPodcasts :: "Ctx \<Rightarrow> Podcast list" where
  "getTrendingPodcasts ctx =
     (let podcast = podcasts ctx
      in slice 0 8 (array_sort (\<lambda>a b. views b - views a) podcast))"

record AuthorStats =
  stats_podcasts :: "Podcast list"
  listeners :: number

definition getPodcastByAuthorId :: "Ctx \<Rightarrow> string \<Rightarrow> AuthorStats" where
  "getPodcastByAuthorId ctx aid =
     (let ps = filter (\<lambda>p. authorId p = aid) (podcasts ctx);
          totalListeners = reduce (\<lambda>sum podcast. number_add sum (views podcast)) (Finite 0) ps
      in \<lparr>stats_podcasts = ps, listeners = totalListeners\<rparr>)"

text \<open>
  \<^verbatim>\<open>getPodcastBySearch\<close>. The full-text index belongs to the host; it is the parameter
  \<open>withSearchIndex\<close>, which maps the name of an index, the searched field and the term
  to the matching documents of the table, most relevant first.
\<close>

type_synonym search_index = "string \<Rightarrow> string \<Rightarrow> string \<Rightarrow> Podcast list \<Rightarrow> Podcast list"

definition getPodcastBySearch :: "search_index \<Rightarrow> Ctx \<Rightarrow> string \<Rightarrow> Podcast list" where
  "getPodcastBySearch withSearchIndex ctx search =
     (if search = '''' then query_desc ctx
      else
        (let authorSearch =
               take 10 (withSearchIndex ''search_author'' ''author'' search (podcasts ctx))
         in if length authorSearch > 0 then authorSearch
            else
              (let titleSearch =
                     take 10 (withSearchIndex ''search_title'' ''podcastTitle'' search
                                (podcasts ctx))
               in if length titleSearch > 0 then titleSearch
                  else take 10 (withSearchIndex ''search_body''
                                  (or_string ''podcastDescription'' ''podcastTitle'') search
                                  (podcasts ctx)))))"

definition getUserPodcasts :: "Ctx \<Rightarrow> error + Podcast list" where
  "getUserPodcasts ctx =
     (case auth ctx of
        None \<Rightarrow> Inl Unauthenticated
      | Some identity \<Rightarrow>
          (case filter (\<lambda>u. email u = identity_email identity) (users ctx) of
             [] \<Rightarrow> Inl UserNotFound
           | user0 # _ \<Rightarrow> Inr (filter (\<lambda>p. user p = user_doc_id user0) (podcasts ctx))))"

section \<open>The Discover page\<close>

definition podcastCategories :: "string list" where
  "podcastCategories =
     [''business'', ''technology'', ''comedy'', ''education'', ''hobbies'',
      ''government'', ''mental health'', ''family'', ''music'', ''politics'',
      ''spirituality'', ''culture'', ''arts'']"

definition capitalize :: "string \<Rightarrow> string" where
  "capitalize str =
     (if length str = 0 then str
      else map toUpperCase_char (take 1 str) @ map toLowerCase_char (drop 1 str))"

text \<open>
  The effect of the page: one query for each label, in the order of the list, stored
  under the label with the image URL defaulted to the empty string.
\<close>

definition fetchCategoryPodcasts :: "Ctx \<Rightarrow> (string \<rightharpoonup> Podcast list)" where
  "fetchCategoryPodcasts ctx =
     fold (\<lambda>cat categoriesData.
             categoriesData(cat \<mapsto>
               map (\<lambda>podcast. podcast\<lparr>imageUrl := or_string (imageUrl podcast) ''''\<rparr>)
                 (getPodcastByCategoryType ctx cat)))
       podcastCategories Map.empty"

record PodcastCard =
  card_key :: podcast_id
  imgUrl :: string
  title :: string
  description :: string
  podcastId :: podcast_id

record Section =
  section_key :: string
  heading :: string
  cards :: "PodcastCard list"

datatype view = LoaderSpinner | Page "PodcastCard list" "Section list"

definition card :: "Podcast \<Rightarrow> PodcastCard" where
  "card p = \<lparr>card_key = doc_id p, imgUrl = imageUrl p, title = podcastTitle p,
     description = podcastDescription p, podcastId = doc_id p\<rparr>"

text \<open>
  What the component renders from the result of the trending query (absent while it
  loads) and the state \<open>categoryPodcasts\<close>. An array is truthy even when it is empty; a
  label whose test \<^verbatim>\<open>length > 0\<close> fails renders nothing.
\<close>

definition Discover :: "Podcast list option \<Rightarrow> (string \<rightharpoonup> Podcast list) \<Rightarrow> view" where
  "Discover trendingPodcasts categoryPodcasts =
     (case trendingPodcasts of
        None \<Rightarrow> LoaderSpinner
      | Some trending \<Rightarrow>
          if list_ex (\<lambda>cat. categoryPodcasts cat = None) podcastCategories then LoaderSpinner
          else Page (map card trending)
                 (List.map_filter
                    (\<lambda>cat. case categoryPodcasts cat of
                              None \<Rightarrow> None
                            | Some ps \<Rightarrow>
                                if length ps > 0
                                then Some \<lparr>section_key = cat,
                                           heading = capitalize cat @ '' Podcasts'',
                                           cards = map card ps\<rparr>
                                else None)
                    podcastCategories))"

definition sections_of :: "view \<Rightarrow> Section list" where
  "sections_of v = (case v of LoaderSpinner \<Rightarrow> [] | Page _ secs \<Rightarrow> secs)"

section \<open>Sample data\<close>

text \<open>
  A small store for the concrete instances below: two users, four podcasts (three of
  the first user, with 3, 0 and 7 views) and the eight files they refer to, plus two
  files that belong to no podcast.
\<close>

definition sample :: "podcast_id \<Rightarrow> user_id \<Rightarrow> string \<Rightarrow> string \<Rightarrow> string \<Rightarrow> int \<Rightarrow> Podcast" where
  "sample i u a vt c v =
     \<lparr>doc_id = i, audioStorageId = 10 + i, user = u, podcastTitle = ''Episode'',
      podcastDescription = ''About'', audioUrl = ''audio'', imageUrl = ''image'',
      imageStorageId = 20 + i, author = a, authorId = a, voicePrompt = ''prompt'',
      imagePrompt = ''picture'', voiceType = vt, categoryType = c, views = v,
      authorImageUrl = '''', audioDuration = 30\<rparr>"

definition sample_users :: "User list" where
  "sample_users =
     [\<lparr>user_doc_id = 1, clerkId = ''alice'', email = ''alice@example.org'',
       name = ''alice'', user_imageUrl = ''''\<rparr>,
      \<lparr>user_doc_id = 2, clerkId = ''bob'', email = ''bob@example.org'',
       name = ''bob'', user_imageUrl = ''''\<rparr>]"

definition sample_ctx :: Ctx where
  "sample_ctx =
     \<lparr>auth = Some \<lparr>identity_email = ''bob@example.org''\<rparr>,
      podcasts = [sample 1 1 ''alice'' ''alloy'' ''music'' 3,
                  sample 2 1 ''alice'' ''echo'' ''comedy'' 0,
                  sample 3 2 ''bob'' ''alloy'' ''music'' 5,
                  sample 4 1 ''alice'' ''alloy'' ''arts'' 7],
      users = sample_users,
      files = {11, 12, 13, 14, 21, 22, 23, 24, 98, 99}\<rparr>"

text \<open>A search index for the instances: the documents whose field equals the term.\<close>

definition sample_index :: search_index where
  "sample_index index_name field_name term ps =
     filter (\<lambda>p. (if field_name = ''author'' then author p
                  else if field_name = ''podcastTitle'' then podcastTitle p
                  else podcastDescription p) = term) ps"

text \<open>A store with ten podcasts, more than the trending list holds.\<close>

definition sample_ten :: Ctx where
  "sample_ten = sample_ctx\<lparr>podcasts :=
      map (\<lambda>i. sample i 1 ''alice'' ''alloy'' ''music'' (int (i mod 4))) [1..<11]\<rparr>"

text \<open>
  An update of the first sample podcast that supplies a description, new storage ids,
  0 views and a duration of 0, and leaves every other text empty.
\<close>

definition sample_args :: UpdateArgs where
  "sample_args =
     \<lparr>arg_podcastId = 1, arg_podcastTitle = '''', arg_podcastDescription = ''New'',
      arg_audioUrl = '''', arg_imageUrl = '''', arg_voicePrompt = '''',
      arg_imagePrompt = '''', arg_voiceType = '''', arg_categoryType = '''',
      arg_views = 0, arg_audioDuration = 0, arg_audioStorageId = 98,
      arg_imageStorageId = 99\<rparr>"

text \<open>
  A store in which the first user has three podcasts with \<open>2 ^ 53\<close>, 1 and 0 views.
\<close>

definition sample_large :: Ctx where
  "sample_large = sample_ctx\<lparr>podcasts :=
      [sample 1 1 ''alice'' ''alloy'' ''music'' 9007199254740992,
       sample 2 1 ''alice'' ''echo'' ''comedy'' 1,
       sample 3 1 ''alice'' ''alloy'' ''arts'' 0]\<rparr>"

section \<open>Float64 sums\<close>

lemma float64_round_exact: "\<bar>n\<bar> \<le> 2 ^ 53 \<Longrightarrow> float64_round n = n"
  by (simp add: float64_round_def Let_def)

lemma within_bound: "\<bar>x\<bar> \<le> s \<Longrightarrow> s < b \<Longrightarrow> \<not> b \<le> x \<and> \<not> x \<le> - b" for x :: int
  by linarith

lemma float64_sum_exact:
  assumes "\<bar>a + b\<bar> \<le> 2 ^ 53"
  shows "float64_sum a b = Finite (a + b)"
proof -
  have "(2::int) ^ 53 < 2 ^ 1024"
    by (rule power_strict_increasing) simp_all
  with assms have "\<not> 2 ^ 1024 \<le> a + b \<and> \<not> a + b \<le> - (2 ^ 1024)"
    by (rule within_bound)
  moreover from assms have "float64_round (a + b) = a + b"
    by (rule float64_round_exact)
  ultimately show ?thesis
    by (simp only: float64_sum_def Let_def if_False)
qed

lemma float64_round_tie: "float64_round 9007199254740993 = 9007199254740992"
  by code_simp

lemma foldl_number_add_exact:
  "0 \<le> a \<Longrightarrow> \<forall>v \<in> set vs. 0 \<le> v \<Longrightarrow> a + sum_list vs \<le> 2 ^ 53 \<Longrightarrow>
   foldl number_add (Finite a) vs = Finite (a + sum_list vs)"
proof (induction vs arbitrary: a)
  case Nil
  then show ?case by simp
next
  case (Cons v vs)
  from Cons.prems have v: "0 \<le> v" and rest: "\<forall>w \<in> set vs. 0 \<le> w" by simp_all
  from rest have "0 \<le> sum_list vs" by (simp add: sum_list_nonneg)
  with Cons.prems v have "\<bar>a + v\<bar> \<le> 2 ^ 53" by simp
  then have step: "number_add (Finite a) v = Finite (a + v)"
    by (simp add: float64_sum_exact)
  from Cons.prems v have "0 \<le> a + v" "a + v + sum_list vs \<le> 2 ^ 53" by simp_all
  with Cons.IH [of "a + v"] rest
  have "foldl number_add (Finite (a + v)) vs = Finite (a + v + sum_list vs)" by simp
  with step show ?case by (simp add: add.assoc)
qed

section \<open>Author statistics\<close>

lemma reduce_views:
  "reduce (\<lambda>s p. number_add s (views p)) z ps = foldl number_add z (map views ps)"
  unfolding reduce_def by (induction ps arbitrary: z) simp_all

text \<open>
  Claim C6 says that the total is the arithmetic sum of the views. The handler adds
  float64 numbers from left to right, and the sum of \<open>2 ^ 53\<close> and 1 is \<open>2 ^ 53\<close>: for
  the author with \<open>2 ^ 53\<close>, 1 and 0 views the total is \<open>2 ^ 53\<close>, one less than the
  arithmetic sum.
\<close>

theorem getPodcastByAuthorId_rounded_total:
  "map views (stats_podcasts (getPodcastByAuthorId sample_large ''alice''))
     = [9007199254740992, 1, 0]
   \<and> listeners (getPodcastByAuthorId sample_large ''alice'') = Finite 9007199254740992
   \<and> sum_list (map views (stats_podcasts (getPodcastByAuthorId sample_large ''alice'')))
     = 9007199254740993"
proof -
  have s1: "float64_sum 0 9007199254740992 = Finite 9007199254740992"
    by (simp add: float64_sum_exact)
  have s2: "float64_sum 9007199254740992 1 = Finite 9007199254740992"
    by (simp add: float64_sum_def Let_def float64_round_tie)
  have s3: "float64_sum 9007199254740992 0 = Finite 9007199254740992"
    by (simp add: float64_sum_exact)
  show ?thesis
    by (simp add: getPodcastByAuthorId_def Let_def reduce_def sample_large_def sample_def
        s1 s2 s3)
qed

text \<open>
  Claim C6, amended. For every author identifier, \<open>getPodcastByAuthorId\<close> returns the
  documents whose \<open>authorId\<close> equals the identifier, together with a total that is the
  float64 sum of their \<open>views\<close>, added from 0 in the order of the list; the total is the
  arithmetic sum whenever those views are not negative and their arithmetic sum is at
  most \<open>2 ^ 53\<close>. When no document matches, it returns the empty list and the total 0.
\<close>

theorem getPodcastByAuthorId_total:
  "stats_podcasts (getPodcastByAuthorId ctx aid) = filter (\<lambda>p. authorId p = aid) (podcasts ctx)
   \<and> listeners (getPodcastByAuthorId ctx aid)
       = foldl number_add (Finite 0)
           (map views (filter (\<lambda>p. authorId p = aid) (podcasts ctx)))
   \<and> ((\<forall>p \<in> set (filter (\<lambda>p. authorId p = aid) (podcasts ctx)). 0 \<le> views p)
        \<and> sum_list (map views (filter (\<lambda>p. authorId p = aid) (podcasts ctx))) \<le> 2 ^ 53 \<longrightarrow>
        listeners (getPodcastByAuthorId ctx aid)
          = Finite (sum_list (map views (filter (\<lambda>p. authorId p = aid) (podcasts ctx)))))
   \<and> ((\<forall>p \<in> set (podcasts ctx). authorId p \<noteq> aid) \<longrightarrow>
        getPodcastByAuthorId ctx aid = \<lparr>stats_podcasts = [], listeners = Finite 0\<rparr>)"
proof -
  let ?ps = "filter (\<lambda>p. authorId p = aid) (podcasts ctx)"
  have res: "getPodcastByAuthorId ctx aid
             = \<lparr>stats_podcasts = ?ps,
                listeners = foldl number_add (Finite 0) (map views ?ps)\<rparr>"
    by (simp add: getPodcastByAuthorId_def Let_def reduce_views)
  have exact: "foldl number_add (Finite 0) (map views ?ps) = Finite (sum_list (map views ?ps))"
    if "\<forall>p \<in> set ?ps. 0 \<le> views p" and "sum_list (map views ?ps) \<le> 2 ^ 53"
    using foldl_number_add_exact [of 0 "map views ?ps"] that by simp
  have none: "?ps = []" if "\<forall>p \<in> set (podcasts ctx). authorId p \<noteq> aid"
    using that by (simp add: filter_empty_conv)
  show ?thesis
  proof (intro conjI impI)
    show "stats_podcasts (getPodcastByAuthorId ctx aid) = ?ps"
      by (simp add: res)
    show "listeners (getPodcastByAuthorId ctx aid)
          = foldl number_add (Finite 0) (map views ?ps)"
      by (simp add: res)
    show "listeners (getPodcastByAuthorId ctx aid) = Finite (sum_list (map views ?ps))"
      if "(\<forall>p \<in> set ?ps. 0 \<le> views p) \<and> sum_list (map views ?ps) \<le> 2 ^ 53"
      using that exact by (simp add: res)
    show "getPodcastByAuthorId ctx aid = \<lparr>stats_podcasts = [], listeners = Finite 0\<rparr>"
      if "\<forall>p \<in> set (podcasts ctx). authorId p \<noteq> aid"
      using none [OF that] by (simp add: res)
  qed
qed

text \<open>
  The instance of the specification: the author with views 3, 0 and 7 has the total 10,
  and an author with no document has the empty list and the total 0.
\<close>

theorem getPodcastByAuthorId_total_witness:
  "map views (stats_podcasts (getPodcastByAuthorId sample_ctx ''alice'')) = [3, 0, 7]
   \<and> listeners (getPodcastByAuthorId sample_ctx ''alice'') = Finite 10
   \<and> ''carol'' \<notin> set (map authorId (podcasts sample_ctx))
   \<and> getPodcastByAuthorId sample_ctx ''carol'' = \<lparr>stats_podcasts = [], listeners = Finite 0\<rparr>"
proof -
  have vs: "map views (filter (\<lambda>p. authorId p = ''alice'') (podcasts sample_ctx)) = [3, 0, 7]"
    by (simp add: sample_ctx_def sample_def)
  have nonneg: "\<forall>p \<in> set (filter (\<lambda>p. authorId p = ''alice'') (podcasts sample_ctx)).
                  0 \<le> views p"
    by (simp add: sample_ctx_def sample_def)
  have carol: "\<forall>p \<in> set (podcasts sample_ctx). authorId p \<noteq> ''carol''"
    by (simp add: sample_ctx_def sample_def)
  have carol': "''carol'' \<notin> set (map authorId (podcasts sample_ctx))"
    by (simp add: sample_ctx_def sample_def)
  from getPodcastByAuthorId_total [of sample_ctx "''alice''"]
  have st: "stats_podcasts (getPodcastByAuthorId sample_ctx ''alice'')
            = filter (\<lambda>p. authorId p = ''alice'') (podcasts sample_ctx)"
    and ex: "(\<forall>p \<in> set (filter (\<lambda>p. authorId p = ''alice'') (podcasts sample_ctx)).
                0 \<le> views p)
             \<and> sum_list (map views (filter (\<lambda>p. authorId p = ''alice'') (podcasts sample_ctx)))
                 \<le> 2 ^ 53 \<longrightarrow>
             listeners (getPodcastByAuthorId sample_ctx ''alice'')
               = Finite (sum_list (map views (filter (\<lambda>p. authorId p = ''alice'')
                                                (podcasts sample_ctx))))"
    by blast+
  from ex nonneg
  have "listeners (getPodcastByAuthorId sample_ctx ''alice'') = Finite 10"
    unfolding vs by simp
  with st vs
  have "map views (stats_podcasts (getPodcastByAuthorId sample_ctx ''alice'')) = [3, 0, 7]
        \<and> listeners (getPodcastByAuthorId sample_ctx ''alice'') = Finite 10"
    by simp
  moreover from getPodcastByAuthorId_total [of sample_ctx "''carol''"] carol
  have "getPodcastByAuthorId sample_ctx ''carol'' = \<lparr>stats_podcasts = [], listeners = Finite 0\<rparr>"
    by blast
  ultimately show ?thesis using carol' by blast
qed

section \<open>Trending ranker\<close>

lemma mset_insert_by: "mset (insert_by cmp x xs) = add_mset x (mset xs)"
  by (induction xs) simp_all

lemma mset_array_sort: "mset (array_sort cmp xs) = mset xs"
  unfolding array_sort_def by (induction xs) (simp_all add: mset_insert_by)

lemma length_array_sort: "length (array_sort cmp xs) = length xs"
proof -
  have "size (mset (array_sort cmp xs)) = size (mset xs)"
    by (simp only: mset_array_sort)
  then show ?thesis by simp
qed

lemma set_insert_by: "set (insert_by cmp x xs) = insert x (set xs)"
proof -
  have "set_mset (mset (insert_by cmp x xs)) = set_mset (add_mset x (mset xs))"
    by (simp only: mset_insert_by)
  then show ?thesis by simp
qed

lemma insert_by_views_desc:
  "sorted_wrt (\<lambda>a b. views b \<le> views a) ps \<Longrightarrow>
   sorted_wrt (\<lambda>a b. views b \<le> views a) (insert_by (\<lambda>a b. views b - views a) x ps)"
proof (induction ps)
  case Nil
  then show ?case by simp
next
  case (Cons y ys)
  show ?case
  proof (cases "views y - views x \<le> 0")
    case True
    with Cons.prems show ?thesis by auto
  next
    case False
    with Cons show ?thesis by (auto simp add: set_insert_by)
  qed
qed

lemma array_sort_views_desc:
  "sorted_wrt (\<lambda>a b. views b \<le> views a) (array_sort (\<lambda>a b. views b - views a) ps)"
  unfolding array_sort_def by (induction ps) (simp_all add: insert_by_views_desc)

lemma sorted_wrt_take_any: "sorted_wrt P xs \<Longrightarrow> sorted_wrt P (take n xs)"
  by (induction xs arbitrary: n) (auto simp add: take_Cons split: nat.splits dest: in_set_takeD)

lemma mset_take_subseteq: "mset (take n xs) \<subseteq># mset xs"
proof -
  have "mset xs = mset (take n xs) + mset (drop n xs)"
    by (metis append_take_drop_id mset_append)
  then show ?thesis by simp
qed

text \<open>
  Claim C2. For every set of podcast documents, the output of \<open>getTrendingPodcasts\<close> has
  the length min(8, number of documents) and is sorted by view count, descending; its
  elements are documents of the table, each at most as often as the table holds it (no
  padding), and with fewer than 8 documents it returns all of them.
\<close>

theorem getTrendingPodcasts_top8:
  "length (getTrendingPodcasts ctx) = min 8 (length (podcasts ctx))
   \<and> sorted_wrt (\<lambda>a b. views b \<le> views a) (getTrendingPodcasts ctx)
   \<and> mset (getTrendingPodcasts ctx) \<subseteq># mset (podcasts ctx)
   \<and> (length (podcasts ctx) < 8 \<longrightarrow> mset (getTrendingPodcasts ctx) = mset (podcasts ctx))"
proof -
  let ?s = "array_sort (\<lambda>a b. views b - views a) (podcasts ctx)"
  have res: "getTrendingPodcasts ctx = take 8 ?s"
    by (simp add: getTrendingPodcasts_def slice_def Let_def)
  have len: "length (take 8 ?s) = min 8 (length (podcasts ctx))"
    by (simp add: length_array_sort min.commute)
  have srt: "sorted_wrt (\<lambda>a b. views b \<le> views a) (take 8 ?s)"
    by (rule sorted_wrt_take_any) (rule array_sort_views_desc)
  have sub: "mset (take 8 ?s) \<subseteq># mset (podcasts ctx)"
    using mset_take_subseteq [of 8 ?s] by (simp only: mset_array_sort)
  have all: "mset (take 8 ?s) = mset (podcasts ctx)" if "length (podcasts ctx) < 8"
  proof -
    from that have "take 8 ?s = ?s" by (simp add: length_array_sort)
    then show ?thesis by (simp only: mset_array_sort)
  qed
  from len srt sub all show ?thesis unfolding res by blast
qed

text \<open>
  Two instances: the four sample podcasts come back in the order of their views, and of
  ten podcasts the eight with the most views do, equal views in the order of the table.
\<close>

theorem getTrendingPodcasts_top8_witness:
  "map doc_id (getTrendingPodcasts sample_ctx) = [4, 3, 1, 2]
   \<and> map views (getTrendingPodcasts sample_ctx) = [7, 5, 3, 0]
   \<and> length (podcasts sample_ctx) < 8
   \<and> mset (getTrendingPodcasts sample_ctx) = mset (podcasts sample_ctx)
   \<and> map doc_id (getTrendingPodcasts sample_ten) = [3, 7, 2, 6, 10, 1, 5, 9]"
  using getTrendingPodcasts_top8 [of sample_ctx]
  by (simp add: sample_ctx_def sample_ten_def sample_def getTrendingPodcasts_def slice_def
      array_sort_def upt_rec)

section \<open>View increment\<close>

lemma doc_id_apply_update: "doc_id (apply_update u p) = doc_id p"
  by (simp add: apply_update_def)

lemma find_patch:
  "find (\<lambda>p. doc_id p = q) (map (\<lambda>p. if doc_id p = pid then apply_update u p else p) ps)
   = (if q = pid then map_option (apply_update u) (find (\<lambda>p. doc_id p = pid) ps)
      else find (\<lambda>p. doc_id p = q) ps)"
  by (induction ps) (auto simp add: doc_id_apply_update)

lemma db_get_patch:
  "db_get (db_patch ctx pid u) q
   = (if q = pid then map_option (apply_update u) (db_get ctx pid) else db_get ctx q)"
  by (simp add: db_get_def db_patch_def find_patch)

lemma apply_views_only:
  "apply_update (no_updates\<lparr>upd_views := Some v\<rparr>) p = p\<lparr>views := v\<rparr>"
  by (simp add: apply_update_def no_updates_def patched_def)

lemma updatePodcastViews_found:
  "db_get ctx pid = Some p \<Longrightarrow>
   updatePodcastViews ctx pid
     = Inr (db_patch ctx pid (no_updates\<lparr>upd_views := Some (float64_round (views p + 1))\<rparr>))"
  by (simp add: updatePodcastViews_def)

text \<open>
  Claim C3 says that the increment writes \<open>v + 1\<close> for every \<open>v\<close>. The handler adds 1 to
  a float64, and the sum of \<open>2 ^ 53\<close> and 1 is \<open>2 ^ 53\<close>: the increment of a podcast with
  \<open>2 ^ 53\<close> views succeeds and leaves the store as it was.
\<close>

theorem updatePodcastViews_at_limit:
  "map_option views (db_get sample_large 1) = Some 9007199254740992
   \<and> updatePodcastViews sample_large 1 = Inr sample_large"
  by (simp add: updatePodcastViews_def db_get_def db_patch_def apply_views_only
      float64_round_tie sample_large_def sample_def)

text \<open>
  Claim C3, amended. For every podcast id: \<open>updatePodcastViews\<close> on a document whose
  \<open>views\<close> equals \<open>v\<close> writes the float64 sum of \<open>v\<close> and 1, which is \<open>v + 1\<close> for every
  integer \<open>v\<close> of magnitude below \<open>2 ^ 53\<close>; on an id with no document it fails with
  \<open>NotFound\<close>. A failed mutation returns no context: the store stays as it was.
\<close>

theorem updatePodcastViews_increment:
  "(db_get ctx pid = None \<longrightarrow> updatePodcastViews ctx pid = Inl NotFound)
   \<and> (\<forall>p. db_get ctx pid = Some p \<longrightarrow>
         (\<exists>ctx'. updatePodcastViews ctx pid = Inr ctx'
            \<and> map_option views (db_get ctx' pid) = Some (float64_round (views p + 1))
            \<and> (\<bar>views p\<bar> < 2 ^ 53 \<longrightarrow>
                 map_option views (db_get ctx' pid) = Some (views p + 1))))"
proof (intro conjI allI impI)
  assume "db_get ctx pid = None"
  then show "updatePodcastViews ctx pid = Inl NotFound"
    by (simp add: updatePodcastViews_def)
next
  fix p
  assume found: "db_get ctx pid = Some p"
  let ?ctx' = "db_patch ctx pid (no_updates\<lparr>upd_views := Some (float64_round (views p + 1))\<rparr>)"
  have res: "updatePodcastViews ctx pid = Inr ?ctx'"
    using found by (rule updatePodcastViews_found)
  have written: "map_option views (db_get ?ctx' pid) = Some (float64_round (views p + 1))"
    using found by (simp add: db_get_patch apply_views_only)
  have "map_option views (db_get ?ctx' pid) = Some (views p + 1)" if "\<bar>views p\<bar> < 2 ^ 53"
  proof -
    from that have "\<bar>views p + 1\<bar> \<le> 2 ^ 53" by simp
    then have "float64_round (views p + 1) = views p + 1" by (rule float64_round_exact)
    with written show ?thesis by simp
  qed
  with res written
  show "\<exists>ctx'. updatePodcastViews ctx pid = Inr ctx'
            \<and> map_option views (db_get ctx' pid) = Some (float64_round (views p + 1))
            \<and> (\<bar>views p\<bar> < 2 ^ 53 \<longrightarrow>
                 map_option views (db_get ctx' pid) = Some (views p + 1))"
    by blast
qed

text \<open>The instance of the specification: 5 views become 6; an unknown id fails.\<close>

theorem updatePodcastViews_increment_witness:
  "map_option views (db_get sample_ctx 3) = Some 5
   \<and> (\<exists>ctx'. updatePodcastViews sample_ctx 3 = Inr ctx'
         \<and> map_option views (db_get ctx' 3) = Some 6)
   \<and> db_get sample_ctx 7 = None
   \<and> updatePodcastViews sample_ctx 7 = Inl NotFound"
proof -
  have found: "db_get sample_ctx 3 = Some (sample 3 2 ''bob'' ''alloy'' ''music'' 5)"
    by (simp add: sample_ctx_def sample_def db_get_def)
  have none: "db_get sample_ctx 7 = None"
    by (simp add: sample_ctx_def sample_def db_get_def)
  have v: "views (sample 3 2 ''bob'' ''alloy'' ''music'' 5) = 5"
    by (simp add: sample_def)
  from updatePodcastViews_increment [of sample_ctx 3] found v
  have "\<exists>ctx'. updatePodcastViews sample_ctx 3 = Inr ctx'
         \<and> map_option views (db_get ctx' 3) = Some 6"
    by auto
  moreover from updatePodcastViews_increment [of sample_ctx 7] none
  have "updatePodcastViews sample_ctx 7 = Inl NotFound" by blast
  moreover from found v have "map_option views (db_get sample_ctx 3) = Some 5" by simp
  ultimately show ?thesis using none by blast
qed

text \<open>
  Claim C9. For every existing podcast document, \<open>updatePodcastViews\<close> modifies only the
  field \<open>views\<close>: the stored document afterwards is the old one with \<open>views\<close> replaced by
  the float64 sum of the old value and 1, so the title, the description, the URLs, the
  storage references, the author fields, the category label, the voice parameters, the
  audio duration and the owning user are unchanged.
\<close>

theorem updatePodcastViews_frame:
  assumes "db_get ctx pid = Some p"
  shows "\<exists>ctx' p'. updatePodcastViews ctx pid = Inr ctx' \<and> db_get ctx' pid = Some p'
     \<and> p' = p\<lparr>views := float64_round (views p + 1)\<rparr>
     \<and> doc_id p' = doc_id p \<and> podcastTitle p' = podcastTitle p
     \<and> podcastDescription p' = podcastDescription p
     \<and> audioUrl p' = audioUrl p \<and> imageUrl p' = imageUrl p
     \<and> audioStorageId p' = audioStorageId p \<and> imageStorageId p' = imageStorageId p
     \<and> author p' = author p \<and> authorId p' = authorId p
     \<and> authorImageUrl p' = authorImageUrl p \<and> categoryType p' = categoryType p
     \<and> voiceType p' = voiceType p \<and> voicePrompt p' = voicePrompt p
     \<and> imagePrompt p' = imagePrompt p \<and> audioDuration p' = audioDuration p
     \<and> user p' = user p"
proof -
  let ?ctx' = "db_patch ctx pid (no_updates\<lparr>upd_views := Some (float64_round (views p + 1))\<rparr>)"
  have "updatePodcastViews ctx pid = Inr ?ctx'"
    using assms by (rule updatePodcastViews_found)
  moreover have "db_get ?ctx' pid = Some (p\<lparr>views := float64_round (views p + 1)\<rparr>)"
    using assms by (simp add: db_get_patch apply_views_only)
  ultimately show ?thesis by simp
qed

text \<open>The third sample podcast after the increment: the same document with 6 views.\<close>

theorem updatePodcastViews_frame_witness:
  "db_get sample_ctx 3 = Some (sample 3 2 ''bob'' ''alloy'' ''music'' 5)
   \<and> (\<exists>ctx'. updatePodcastViews sample_ctx 3 = Inr ctx'
         \<and> db_get ctx' 3 = Some (sample 3 2 ''bob'' ''alloy'' ''music'' 6))"
proof -
  have found: "db_get sample_ctx 3 = Some (sample 3 2 ''bob'' ''alloy'' ''music'' 5)"
    by (simp add: sample_ctx_def sample_def db_get_def)
  have "(sample 3 2 ''bob'' ''alloy'' ''music'' 5)
          \<lparr>views := float64_round (views (sample 3 2 ''bob'' ''alloy'' ''music'' 5) + 1)\<rparr>
        = sample 3 2 ''bob'' ''alloy'' ''music'' 6"
    by (simp add: sample_def float64_round_exact)
  with updatePodcastViews_frame [OF found] found show ?thesis
    by auto
qed

section \<open>Update\<close>

text \<open>The update that \<open>updatePodcast\<close> assembles, field by field.\<close>

lemma updatePodcast_found:
  assumes "auth ctx = Some i" and "db_get ctx (arg_podcastId args) = Some p"
  shows "\<exists>u. updatePodcast ctx args = Inr (db_patch ctx (arg_podcastId args) u)
     \<and> upd_podcastTitle u
         = (if arg_podcastTitle args = '''' then None else Some (arg_podcastTitle args))
     \<and> upd_podcastDescription u
         = (if arg_podcastDescription args = '''' then None
            else Some (arg_podcastDescription args))
     \<and> upd_audioUrl u = (if arg_audioUrl args = '''' then None else Some (arg_audioUrl args))
     \<and> upd_imageUrl u = (if arg_imageUrl args = '''' then None else Some (arg_imageUrl args))
     \<and> upd_voicePrompt u
         = (if arg_voicePrompt args = '''' then None else Some (arg_voicePrompt args))
     \<and> upd_imagePrompt u
         = (if arg_imagePrompt args = '''' then None else Some (arg_imagePrompt args))
     \<and> upd_voiceType u
         = (if arg_voiceType args = '''' then None else Some (arg_voiceType args))
     \<and> upd_categoryType u
         = (if arg_categoryType args = '''' then None else Some (arg_categoryType args))
     \<and> upd_views u = Some (arg_views args)
     \<and> upd_audioDuration u
         = (if arg_audioDuration args = 0 then None else Some (arg_audioDuration args))
     \<and> upd_audioStorageId u = Some (arg_audioStorageId args)
     \<and> upd_imageStorageId u = Some (arg_imageStorageId args)"
  unfolding updatePodcast_def Let_def using assms
  apply (simp only: option.case)
  apply (rule exI, rule conjI, rule refl)
  apply (intro conjI)
             apply (simp_all add: no_updates_def truthy_string_def truthy_number_def
      if_distrib [of upd_podcastTitle] if_distrib [of upd_podcastDescription]
      if_distrib [of upd_audioUrl] if_distrib [of upd_imageUrl]
      if_distrib [of upd_voicePrompt] if_distrib [of upd_imagePrompt]
      if_distrib [of upd_voiceType] if_distrib [of upd_categoryType]
      if_distrib [of upd_views] if_distrib [of upd_audioDuration]
      if_distrib [of upd_audioStorageId] if_distrib [of upd_imageStorageId])
  done

text \<open>
  Claim C7. For every call of \<open>updatePodcast\<close> by a signed-in caller on an existing
  podcast: a supplied text overwrites the stored one exactly when it is not empty, the
  supplied duration exactly when it is not 0, \<open>views\<close> is overwritten by whatever is
  supplied (the case the implementation admits explicitly, so that views can be set to
  0), the two storage references are always overwritten, and the fields that the update
  does not write (id, owning user, author, author id, author image) keep their values.
\<close>

theorem updatePodcast_fields:
  assumes "auth ctx = Some i" and "db_get ctx (arg_podcastId args) = Some p"
  shows "\<exists>ctx' p'. updatePodcast ctx args = Inr ctx'
     \<and> db_get ctx' (arg_podcastId args) = Some p'
     \<and> podcastTitle p'
         = (if arg_podcastTitle args = '''' then podcastTitle p else arg_podcastTitle args)
     \<and> podcastDescription p'
         = (if arg_podcastDescription args = '''' then podcastDescription p
            else arg_podcastDescription args)
     \<and> audioUrl p' = (if arg_audioUrl args = '''' then audioUrl p else arg_audioUrl args)
     \<and> imageUrl p' = (if arg_imageUrl args = '''' then imageUrl p else arg_imageUrl args)
     \<and> voicePrompt p'
         = (if arg_voicePrompt args = '''' then voicePrompt p else arg_voicePrompt args)
     \<and> imagePrompt p'
         = (if arg_imagePrompt args = '''' then imagePrompt p else arg_imagePrompt args)
     \<and> voiceType p' = (if arg_voiceType args = '''' then voiceType p else arg_voiceType args)
     \<and> categoryType p'
         = (if arg_categoryType args = '''' then categoryType p else arg_categoryType args)
     \<and> views p' = arg_views args
     \<and> audioDuration p'
         = (if arg_audioDuration args = 0 then audioDuration p else arg_audioDuration args)
     \<and> audioStorageId p' = arg_audioStorageId args
     \<and> imageStorageId p' = arg_imageStorageId args
     \<and> doc_id p' = doc_id p \<and> user p' = user p \<and> author p' = author p
     \<and> authorId p' = authorId p \<and> authorImageUrl p' = authorImageUrl p"
proof -
  from updatePodcast_found [OF assms] obtain u where
    res: "updatePodcast ctx args = Inr (db_patch ctx (arg_podcastId args) u)" and
    u: "upd_podcastTitle u
         = (if arg_podcastTitle args = '''' then None else Some (arg_podcastTitle args))"
      "upd_podcastDescription u
         = (if arg_podcastDescription args = '''' then None
            else Some (arg_podcastDescription args))"
      "upd_audioUrl u = (if arg_audioUrl args = '''' then None else Some (arg_audioUrl args))"
      "upd_imageUrl u = (if arg_imageUrl args = '''' then None else Some (arg_imageUrl args))"
      "upd_voicePrompt u
         = (if arg_voicePrompt args = '''' then None else Some (arg_voicePrompt args))"
      "upd_imagePrompt u
         = (if arg_imagePrompt args = '''' then None else Some (arg_imagePrompt args))"
      "upd_voiceType u
         = (if arg_voiceType args = '''' then None else Some (arg_voiceType args))"
      "upd_categoryType u
         = (if arg_categoryType args = '''' then None else Some (arg_categoryType args))"
      "upd_views u = Some (arg_views args)"
      "upd_audioDuration u
         = (if arg_audioDuration args = 0 then None else Some (arg_audioDuration args))"
      "upd_audioStorageId u = Some (arg_audioStorageId args)"
      "upd_imageStorageId u = Some (arg_imageStorageId args)"
    by blast
  have got: "db_get (db_patch ctx (arg_podcastId args) u) (arg_podcastId args)
             = Some (apply_update u p)"
    using assms(2) by (simp add: db_get_patch)
  show ?thesis
    apply (rule exI [of _ "db_patch ctx (arg_podcastId args) u"])
    apply (rule exI [of _ "apply_update u p"])
    apply (simp only: res got simp_thms)
    apply (simp add: apply_update_def patched_def u)
    done
qed


text \<open>
  The sample update: the description, the views (set to 0) and the storage references
  are written; the empty texts and the duration 0 leave the stored values.
\<close>

theorem updatePodcast_fields_witness:
  "auth sample_ctx = Some \<lparr>identity_email = ''bob@example.org''\<rparr>
   \<and> db_get sample_ctx 1 = Some (sample 1 1 ''alice'' ''alloy'' ''music'' 3)
   \<and> (\<exists>ctx'. updatePodcast sample_ctx sample_args = Inr ctx'
         \<and> db_get ctx' 1 =
             Some ((sample 1 1 ''alice'' ''alloy'' ''music'' 0)
                     \<lparr>podcastDescription := ''New'', audioStorageId := 98,
                      imageStorageId := 99\<rparr>))"
proof -
  have a: "auth sample_ctx = Some \<lparr>identity_email = ''bob@example.org''\<rparr>"
    by (simp add: sample_ctx_def)
  have f: "db_get sample_ctx (arg_podcastId sample_args)
           = Some (sample 1 1 ''alice'' ''alloy'' ''music'' 3)"
    by (simp add: sample_ctx_def sample_def sample_args_def db_get_def)
  from updatePodcast_fields [OF a f] obtain ctx' p' where
    r: "updatePodcast sample_ctx sample_args = Inr ctx'" and
    g: "db_get ctx' (arg_podcastId sample_args) = Some p'" and
    p': "podcastTitle p' = ''Episode''" "podcastDescription p' = ''New''"
      "audioUrl p' = ''audio''" "imageUrl p' = ''image''" "voicePrompt p' = ''prompt''"
      "imagePrompt p' = ''picture''" "voiceType p' = ''alloy''" "categoryType p' = ''music''"
      "views p' = 0" "audioDuration p' = 30" "audioStorageId p' = 98"
      "imageStorageId p' = 99" "doc_id p' = 1" "user p' = 1" "author p' = ''alice''"
      "authorId p' = ''alice''" "authorImageUrl p' = ''''"
    by (auto simp add: sample_args_def sample_def)
  have "p' = (sample 1 1 ''alice'' ''alloy'' ''music'' 0)
                     \<lparr>podcastDescription := ''New'', audioStorageId := 98,
                      imageStorageId := 99\<rparr>"
    using p' by (cases p') (simp add: sample_def)
  with r g a f show ?thesis by (simp add: sample_args_def)
qed

section \<open>Delete\<close>

lemma db_get_delete: "db_get (db_delete ctx pid) pid = None"
  by (simp add: db_get_def db_delete_def find_None_iff)

lemma deletePodcast_absent:
  "db_get ctx (del_podcastId args) = None \<Longrightarrow> deletePodcast ctx args = Inl NotFound"
  by (simp add: deletePodcast_def)

lemma deletePodcast_present:
  assumes "db_get ctx (del_podcastId args) = Some p"
    and "del_imageStorageId args \<in> files ctx"
    and "del_audioStorageId args \<in> files ctx"
    and "del_imageStorageId args \<noteq> del_audioStorageId args"
  shows "deletePodcast ctx args
         = Inr (db_delete
                  (ctx\<lparr>files := files ctx - {del_imageStorageId args} - {del_audioStorageId args}\<rparr>)
                  (del_podcastId args))"
  using assms by (simp add: deletePodcast_def storage_delete_def)

text \<open>
  Claim C4 says that deleting a podcast deletes the two files of the podcast. The
  handler never reads the storage references of the document: it deletes the two files
  whose ids the caller passes. Here the first sample podcast (image 21, audio 11) is
  deleted with the ids of the second one: the call succeeds, the files 21 and 11 stay,
  and the files 22 and 12 of the second podcast, which is still in the table, are gone.
\<close>

theorem deletePodcast_other_assets:
  "db_get sample_ctx 1 = Some (sample 1 1 ''alice'' ''alloy'' ''music'' 3)
   \<and> imageStorageId (sample 1 1 ''alice'' ''alloy'' ''music'' 3) = 21
   \<and> audioStorageId (sample 1 1 ''alice'' ''alloy'' ''music'' 3) = 11
   \<and> deletePodcast sample_ctx
        \<lparr>del_podcastId = 1, del_imageStorageId = 22, del_audioStorageId = 12\<rparr>
      = Inr (sample_ctx\<lparr>podcasts := tl (podcasts sample_ctx),
                        files := {11, 13, 14, 21, 23, 24, 98, 99}\<rparr>)"
proof -
  have fs: "{11, 12, 13, 14, 21, 22, 23, 24, 98, 99} - {22} - {12 :: nat}
            = {11, 13, 14, 21, 23, 24, 98, 99}"
    by auto
  show ?thesis
    by (simp add: deletePodcast_def storage_delete_def db_delete_def db_get_def
        sample_ctx_def sample_def fs)
qed

text \<open>
  Claim C4, amended. For every podcast id: \<open>deletePodcast\<close> fails with \<open>NotFound\<close> if
  no document exists for that id; if one exists and the two storage ids that the caller
  passes are distinct ids of stored files, it deletes those two files and then the
  document, and a subsequent \<open>getPodcastById\<close> on that id returns nothing.
\<close>

theorem deletePodcast_supplied_assets:
  "(db_get ctx (del_podcastId args) = None \<longrightarrow> deletePodcast ctx args = Inl NotFound)
   \<and> (db_get ctx (del_podcastId args) \<noteq> None
        \<and> del_imageStorageId args \<in> files ctx \<and> del_audioStorageId args \<in> files ctx
        \<and> del_imageStorageId args \<noteq> del_audioStorageId args \<longrightarrow>
       (\<exists>ctx'. deletePodcast ctx args = Inr ctx'
          \<and> files ctx' = files ctx - {del_imageStorageId args, del_audioStorageId args}
          \<and> podcasts ctx' = filter (\<lambda>p. doc_id p \<noteq> del_podcastId args) (podcasts ctx)
          \<and> getPodcastById ctx' (del_podcastId args) = None))"
proof (intro conjI impI)
  assume "db_get ctx (del_podcastId args) = None"
  then show "deletePodcast ctx args = Inl NotFound" by (rule deletePodcast_absent)
next
  let ?ctx' = "db_delete
      (ctx\<lparr>files := files ctx - {del_imageStorageId args} - {del_audioStorageId args}\<rparr>)
      (del_podcastId args)"
  assume h: "db_get ctx (del_podcastId args) \<noteq> None
        \<and> del_imageStorageId args \<in> files ctx \<and> del_audioStorageId args \<in> files ctx
        \<and> del_imageStorageId args \<noteq> del_audioStorageId args"
  then obtain p where "db_get ctx (del_podcastId args) = Some p" by blast
  with h have "deletePodcast ctx args = Inr ?ctx'"
    by (simp add: deletePodcast_present)
  moreover have "files ?ctx' = files ctx - {del_imageStorageId args, del_audioStorageId args}"
    by (auto simp add: db_delete_def)
  moreover have "podcasts ?ctx' = filter (\<lambda>p. doc_id p \<noteq> del_podcastId args) (podcasts ctx)"
    by (simp add: db_delete_def)
  moreover have "getPodcastById ?ctx' (del_podcastId args) = None"
    by (simp add: getPodcastById_def db_get_delete)
  ultimately show "\<exists>ctx'. deletePodcast ctx args = Inr ctx'
          \<and> files ctx' = files ctx - {del_imageStorageId args, del_audioStorageId args}
          \<and> podcasts ctx' = filter (\<lambda>p. doc_id p \<noteq> del_podcastId args) (podcasts ctx)
          \<and> getPodcastById ctx' (del_podcastId args) = None"
    by blast
qed

text \<open>
  An unknown id fails; the first sample podcast, deleted with its own two storage ids,
  leaves neither its files nor its document.
\<close>

theorem deletePodcast_supplied_assets_witness:
  "db_get sample_ctx 7 = None
   \<and> deletePodcast sample_ctx
        \<lparr>del_podcastId = 7, del_imageStorageId = 21, del_audioStorageId = 11\<rparr> = Inl NotFound
   \<and> db_get sample_ctx 1 = Some (sample 1 1 ''alice'' ''alloy'' ''music'' 3)
   \<and> (\<exists>ctx'. deletePodcast sample_ctx
                \<lparr>del_podcastId = 1, del_imageStorageId = 21, del_audioStorageId = 11\<rparr>
              = Inr ctx'
         \<and> files ctx' = {12, 13, 14, 22, 23, 24, 98, 99}
         \<and> map doc_id (podcasts ctx') = [2, 3, 4]
         \<and> getPodcastById ctx' 1 = None)"
proof -
  let ?a7 = "\<lparr>del_podcastId = 7, del_imageStorageId = 21, del_audioStorageId = 11\<rparr>"
  let ?a1 = "\<lparr>del_podcastId = 1, del_imageStorageId = 21, del_audioStorageId = 11\<rparr>"
  have none: "db_get sample_ctx 7 = None"
    by (simp add: sample_ctx_def sample_def db_get_def)
  have some: "db_get sample_ctx 1 = Some (sample 1 1 ''alice'' ''alloy'' ''music'' 3)"
    by (simp add: sample_ctx_def sample_def db_get_def)
  have fl: "files sample_ctx = {11, 12, 13, 14, 21, 22, 23, 24, 98, 99}"
    by (simp add: sample_ctx_def)
  have fs: "files sample_ctx - {21, 11} = {12, 13, 14, 22, 23, 24, 98, 99}"
    unfolding fl by auto
  have ps: "map doc_id (filter (\<lambda>p. doc_id p \<noteq> 1) (podcasts sample_ctx)) = [2, 3, 4]"
    by (simp add: sample_ctx_def sample_def)
  from deletePodcast_supplied_assets [of sample_ctx ?a7] none
  have absent: "deletePodcast sample_ctx ?a7 = Inl NotFound" by simp
  from deletePodcast_supplied_assets [of sample_ctx ?a1] some fl
  obtain ctx' where "deletePodcast sample_ctx ?a1 = Inr ctx'"
    and "files ctx' = files sample_ctx - {21, 11}"
    and "podcasts ctx' = filter (\<lambda>p. doc_id p \<noteq> 1) (podcasts sample_ctx)"
    and "getPodcastById ctx' 1 = None"
    by auto
  with fs ps have "\<exists>ctx'. deletePodcast sample_ctx ?a1 = Inr ctx'
         \<and> files ctx' = {12, 13, 14, 22, 23, 24, 98, 99}
         \<and> map doc_id (podcasts ctx') = [2, 3, 4]
         \<and> getPodcastById ctx' 1 = None"
    by simp
  with none absent some show ?thesis by blast
qed

section \<open>Who may update and delete\<close>

text \<open>
  Claim C5 says that only the owner of a podcast updates or deletes it. No handler
  compares the caller with the field \<open>user\<close> of the document. Here the caller is the
  second sample user, whose only podcast is the third one; the update and the deletion
  of the first podcast, which belongs to the first user, both succeed.
\<close>

theorem updatePodcast_by_other_user:
  "auth sample_ctx = Some \<lparr>identity_email = ''bob@example.org''\<rparr>
   \<and> getUserPodcasts sample_ctx = Inr [sample 3 2 ''bob'' ''alloy'' ''music'' 5]
   \<and> db_get sample_ctx 1 = Some (sample 1 1 ''alice'' ''alloy'' ''music'' 3)
   \<and> updatePodcast sample_ctx sample_args
      = Inr (sample_ctx\<lparr>podcasts :=
               [(sample 1 1 ''alice'' ''alloy'' ''music'' 0)
                  \<lparr>podcastDescription := ''New'', audioStorageId := 98, imageStorageId := 99\<rparr>,
                sample 2 1 ''alice'' ''echo'' ''comedy'' 0,
                sample 3 2 ''bob'' ''alloy'' ''music'' 5,
                sample 4 1 ''alice'' ''alloy'' ''arts'' 7]\<rparr>)
   \<and> deletePodcast sample_ctx
        \<lparr>del_podcastId = 1, del_imageStorageId = 21, del_audioStorageId = 11\<rparr>
      = Inr (sample_ctx\<lparr>podcasts := tl (podcasts sample_ctx),
                        files := {12, 13, 14, 22, 23, 24, 98, 99}\<rparr>)"
proof -
  have fs: "{11, 12, 13, 14, 21, 22, 23, 24, 98, 99} - {21} - {11 :: nat}
            = {12, 13, 14, 22, 23, 24, 98, 99}"
    by auto
  have upd: "updatePodcast sample_ctx sample_args
      = Inr (sample_ctx\<lparr>podcasts :=
               [(sample 1 1 ''alice'' ''alloy'' ''music'' 0)
                  \<lparr>podcastDescription := ''New'', audioStorageId := 98, imageStorageId := 99\<rparr>,
                sample 2 1 ''alice'' ''echo'' ''comedy'' 0,
                sample 3 2 ''bob'' ''alloy'' ''music'' 5,
                sample 4 1 ''alice'' ''alloy'' ''arts'' 7]\<rparr>)"
    by (simp add: updatePodcast_def Let_def sample_ctx_def sample_args_def sample_def
        db_get_def db_patch_def apply_update_def patched_def no_updates_def
        truthy_string_def truthy_number_def)
  have del: "deletePodcast sample_ctx
        \<lparr>del_podcastId = 1, del_imageStorageId = 21, del_audioStorageId = 11\<rparr>
      = Inr (sample_ctx\<lparr>podcasts := tl (podcasts sample_ctx),
                        files := {12, 13, 14, 22, 23, 24, 98, 99}\<rparr>)"
    by (simp add: deletePodcast_def storage_delete_def db_delete_def db_get_def
        sample_ctx_def sample_def fs)
  have own: "getUserPodcasts sample_ctx = Inr [sample 3 2 ''bob'' ''alloy'' ''music'' 5]"
    by (simp add: getUserPodcasts_def sample_ctx_def sample_users_def sample_def)
  have "auth sample_ctx = Some \<lparr>identity_email = ''bob@example.org''\<rparr>"
    by (simp add: sample_ctx_def)
  moreover have "db_get sample_ctx 1 = Some (sample 1 1 ''alice'' ''alloy'' ''music'' 3)"
    by (simp add: sample_ctx_def sample_def db_get_def)
  ultimately show ?thesis using upd del own by blast
qed

text \<open>
  Claim C5, amended. \<open>updatePodcast\<close> fails with \<open>Unauthenticated\<close> for every caller
  without an identity. For a caller with an identity, whoever it is, the update of an
  existing podcast succeeds, and so does the deletion of an existing podcast whose two
  supplied storage ids are distinct ids of stored files.
\<close>

theorem updatePodcast_identity_only:
  "(auth ctx = None \<longrightarrow> updatePodcast ctx args = Inl Unauthenticated)
   \<and> (auth ctx \<noteq> None \<and> db_get ctx (arg_podcastId args) \<noteq> None \<longrightarrow>
        (\<exists>ctx'. updatePodcast ctx args = Inr ctx'))
   \<and> (auth ctx \<noteq> None \<and> db_get ctx (del_podcastId dargs) \<noteq> None
        \<and> del_imageStorageId dargs \<in> files ctx \<and> del_audioStorageId dargs \<in> files ctx
        \<and> del_imageStorageId dargs \<noteq> del_audioStorageId dargs \<longrightarrow>
        (\<exists>ctx'. deletePodcast ctx dargs = Inr ctx'))"
proof (intro conjI impI)
  assume "auth ctx = None"
  then show "updatePodcast ctx args = Inl Unauthenticated"
    by (simp add: updatePodcast_def)
next
  assume "auth ctx \<noteq> None \<and> db_get ctx (arg_podcastId args) \<noteq> None"
  then obtain i p where "auth ctx = Some i" "db_get ctx (arg_podcastId args) = Some p"
    by blast
  then show "\<exists>ctx'. updatePodcast ctx args = Inr ctx'"
    by (simp add: updatePodcast_def Let_def)
next
  assume h: "auth ctx \<noteq> None \<and> db_get ctx (del_podcastId dargs) \<noteq> None
        \<and> del_imageStorageId dargs \<in> files ctx \<and> del_audioStorageId dargs \<in> files ctx
        \<and> del_imageStorageId dargs \<noteq> del_audioStorageId dargs"
  then obtain p where "db_get ctx (del_podcastId dargs) = Some p" by blast
  with h show "\<exists>ctx'. deletePodcast ctx dargs = Inr ctx'"
    by (simp add: deletePodcast_present)
qed

text \<open>
  Without an identity the sample update is rejected; with the identity of the second
  user, who does not own the first podcast, the update and the deletion go through.
\<close>

theorem updatePodcast_identity_only_witness:
  "updatePodcast (sample_ctx\<lparr>auth := None\<rparr>) sample_args = Inl Unauthenticated
   \<and> auth sample_ctx \<noteq> None
   \<and> db_get sample_ctx 1 \<noteq> None
   \<and> getUserPodcasts sample_ctx = Inr [sample 3 2 ''bob'' ''alloy'' ''music'' 5]
   \<and> (\<exists>ctx'. updatePodcast sample_ctx sample_args = Inr ctx')
   \<and> (\<exists>ctx'. deletePodcast sample_ctx
                \<lparr>del_podcastId = 1, del_imageStorageId = 21, del_audioStorageId = 11\<rparr>
              = Inr ctx')"
proof -
  let ?d = "\<lparr>del_podcastId = 1, del_imageStorageId = 21, del_audioStorageId = 11\<rparr>"
  have own: "getUserPodcasts sample_ctx = Inr [sample 3 2 ''bob'' ''alloy'' ''music'' 5]"
    by (simp add: getUserPodcasts_def sample_ctx_def sample_users_def sample_def)
  have a: "auth sample_ctx \<noteq> None"
    by (simp add: sample_ctx_def)
  have some: "db_get sample_ctx 1 \<noteq> None"
    by (simp add: sample_ctx_def sample_def db_get_def)
  have fl: "21 \<in> files sample_ctx" "11 \<in> files sample_ctx"
    by (simp_all add: sample_ctx_def)
  have id1: "arg_podcastId sample_args = 1"
    by (simp add: sample_args_def)
  from updatePodcast_identity_only [of "sample_ctx\<lparr>auth := None\<rparr>" sample_args ?d]
  have anon: "updatePodcast (sample_ctx\<lparr>auth := None\<rparr>) sample_args = Inl Unauthenticated"
    by simp
  from updatePodcast_identity_only [of sample_ctx sample_args ?d] a some fl id1
  have "(\<exists>ctx'. updatePodcast sample_ctx sample_args = Inr ctx')
      \<and> (\<exists>ctx'. deletePodcast sample_ctx ?d = Inr ctx')"
    by simp
  with anon a some own show ?thesis by blast
qed

section \<open>Similar podcasts\<close>

text \<open>
  Claim C10. For every podcast id given to \<open>getPodcastByVoiceType\<close>: every document of
  the result is a document of the table other than the queried one, the queried podcast
  exists and has the same voice type, and the queried podcast is never in the result.
\<close>

theorem getPodcastByVoiceType_similar:
  "(\<forall>r \<in> set (getPodcastByVoiceType ctx pid).
      r \<in> set (podcasts ctx) \<and> doc_id r \<noteq> pid
      \<and> (\<exists>p. db_get ctx pid = Some p \<and> voiceType r = voiceType p))
   \<and> (\<forall>p. db_get ctx pid = Some p \<longrightarrow> p \<notin> set (getPodcastByVoiceType ctx pid))"
proof (intro conjI ballI allI impI)
  fix r
  assume "r \<in> set (getPodcastByVoiceType ctx pid)"
  then have r: "r \<in> set (podcasts ctx)" "doc_id r \<noteq> pid"
      "Some (voiceType r) = map_option voiceType (db_get ctx pid)"
    by (simp_all add: getPodcastByVoiceType_def Let_def)
  from r(1) show "r \<in> set (podcasts ctx)" .
  from r(2) show "doc_id r \<noteq> pid" .
  from r(3) show "\<exists>p. db_get ctx pid = Some p \<and> voiceType r = voiceType p"
    by (cases "db_get ctx pid") simp_all
next
  fix p
  assume "db_get ctx pid = Some p"
  then have "doc_id p = pid"
    by (auto simp add: db_get_def find_Some_iff)
  then show "p \<notin> set (getPodcastByVoiceType ctx pid)"
    by (simp add: getPodcastByVoiceType_def Let_def)
qed

text \<open>
  The first sample podcast has the voice \<open>alloy\<close>; the other two with that voice are
  similar to it. An unknown id has no similar podcast.
\<close>

theorem getPodcastByVoiceType_similar_witness:
  "map_option voiceType (db_get sample_ctx 1) = Some ''alloy''
   \<and> map doc_id (getPodcastByVoiceType sample_ctx 1) = [3, 4]
   \<and> map voiceType (getPodcastByVoiceType sample_ctx 1) = [''alloy'', ''alloy'']
   \<and> getPodcastByVoiceType sample_ctx 7 = []"
  using getPodcastByVoiceType_similar [of sample_ctx 1]
    getPodcastByVoiceType_similar [of sample_ctx 7]
  by (simp add: getPodcastByVoiceType_def db_get_def sample_ctx_def sample_def)

section \<open>Search resolver\<close>

text \<open>
  Claim C1. For every search term: the empty term gives the full listing, newest first;
  any other term gives the author matches if there are any, else the title matches if
  there are any, else the description matches, empty or not. Each lookup is cut to 10
  hits, and the result is one of the three lookups, never a union of two.
\<close>

theorem getPodcastBySearch_priority:
  "(search = '''' \<longrightarrow>
      getPodcastBySearch idx ctx search = rev (podcasts ctx)
      \<and> getPodcastBySearch idx ctx search = getAllPodcasts ctx)
   \<and> (search \<noteq> '''' \<longrightarrow>
      (let a = take 10 (idx ''search_author'' ''author'' search (podcasts ctx));
           t = take 10 (idx ''search_title'' ''podcastTitle'' search (podcasts ctx));
           d = take 10 (idx ''search_body'' ''podcastDescription'' search (podcasts ctx))
       in getPodcastBySearch idx ctx search = (if a \<noteq> [] then a else if t \<noteq> [] then t else d)
          \<and> getPodcastBySearch idx ctx search \<in> {a, t, d}
          \<and> length (getPodcastBySearch idx ctx search) \<le> 10))"
  by (simp add: getPodcastBySearch_def getAllPodcasts_def query_desc_def Let_def
      or_string_def truthy_string_def)

text \<open>
  On the sample store: the listing, an author match (which hides the title and the
  description), a title match, a description match and a term with no match.
\<close>

theorem getPodcastBySearch_priority_witness:
  "map doc_id (getPodcastBySearch sample_index sample_ctx '''') = [4, 3, 2, 1]
   \<and> map doc_id (getPodcastBySearch sample_index sample_ctx ''alice'') = [1, 2, 4]
   \<and> map doc_id (getPodcastBySearch sample_index sample_ctx ''Episode'') = [1, 2, 3, 4]
   \<and> map doc_id (getPodcastBySearch sample_index sample_ctx ''About'') = [1, 2, 3, 4]
   \<and> getPodcastBySearch sample_index sample_ctx ''nothing'' = []"
  using getPodcastBySearch_priority [of "''''" sample_index sample_ctx]
    getPodcastBySearch_priority [of "''alice''" sample_index sample_ctx]
    getPodcastBySearch_priority [of "''Episode''" sample_index sample_ctx]
    getPodcastBySearch_priority [of "''About''" sample_index sample_ctx]
    getPodcastBySearch_priority [of "''nothing''" sample_index sample_ctx]
  by (simp add: Let_def sample_index_def sample_ctx_def sample_def)

section \<open>Category aggregator and rendered sections\<close>

lemma fold_store:
  "fold (\<lambda>c m. m(c \<mapsto> f c)) cs m0 k = (if k \<in> set cs then Some (f k) else m0 k)"
  by (induction cs arbitrary: m0) auto

lemma fetchCategoryPodcasts_at:
  "fetchCategoryPodcasts ctx L =
     (if L \<in> set podcastCategories
      then Some (map (\<lambda>podcast. podcast\<lparr>imageUrl := or_string (imageUrl podcast) ''''\<rparr>)
                   (getPodcastByCategoryType ctx L))
      else None)"
  unfolding fetchCategoryPodcasts_def by (simp only: fold_store)

lemma in_set_map_filter:
  "y \<in> set (List.map_filter f xs) \<longleftrightarrow> (\<exists>x \<in> set xs. f x = Some y)"
  by (induction xs) (auto split: option.splits)

lemma section_needs_content:
  assumes "s \<in> set (sections_of (Discover trending categoryPodcasts))"
  shows "\<exists>ps. categoryPodcasts (section_key s) = Some ps \<and> ps \<noteq> [] \<and> cards s = map card ps"
proof -
  from assms obtain cat where "cat \<in> set podcastCategories" and
    s: "(case categoryPodcasts cat of None \<Rightarrow> None
         | Some ps \<Rightarrow> if length ps > 0
             then Some \<lparr>section_key = cat, heading = capitalize cat @ '' Podcasts'',
                        cards = map card ps\<rparr>
             else None) = Some s"
    by (auto simp add: sections_of_def Discover_def in_set_map_filter
        split: option.splits if_splits view.splits)
  then show ?thesis
    by (cases "categoryPodcasts cat") (auto split: if_splits)
qed

text \<open>
  Claim C8. For every label of the fixed list of 13 labels with no matching podcast,
  the aggregator stores the empty list under the label, and the rendered page has no
  section for it; no rendered section is empty.
\<close>

theorem Discover_no_empty_section:
  assumes "L \<in> set podcastCategories"
    and "\<forall>p \<in> set (podcasts ctx). categoryType p \<noteq> L"
  shows "getPodcastByCategoryType ctx L = []
     \<and> fetchCategoryPodcasts ctx L = Some []
     \<and> L \<notin> set (map section_key (sections_of (Discover trending (fetchCategoryPodcasts ctx))))
     \<and> [] \<notin> set (map cards (sections_of (Discover trending (fetchCategoryPodcasts ctx))))"
proof -
  from assms(2) have none: "getPodcastByCategoryType ctx L = []"
    by (simp add: getPodcastByCategoryType_def filter_empty_conv)
  with assms(1) have at: "fetchCategoryPodcasts ctx L = Some []"
    by (simp add: fetchCategoryPodcasts_at)
  have "L \<notin> set (map section_key (sections_of (Discover trending (fetchCategoryPodcasts ctx))))"
  proof
    assume "L \<in> set (map section_key (sections_of (Discover trending (fetchCategoryPodcasts ctx))))"
    then obtain s where "s \<in> set (sections_of (Discover trending (fetchCategoryPodcasts ctx)))"
      and "section_key s = L"
      by auto
    with section_needs_content [of s trending "fetchCategoryPodcasts ctx"] at
    show False by simp
  qed
  moreover have "[] \<notin> set (map cards (sections_of (Discover trending (fetchCategoryPodcasts ctx))))"
  proof
    assume "[] \<in> set (map cards (sections_of (Discover trending (fetchCategoryPodcasts ctx))))"
    then obtain s where "s \<in> set (sections_of (Discover trending (fetchCategoryPodcasts ctx)))"
      and "cards s = []"
      by auto
    with section_needs_content [of s trending "fetchCategoryPodcasts ctx"]
    show False by auto
  qed
  ultimately show ?thesis using none at by simp
qed

text \<open>
  The sample store has no business podcast: the label maps to the empty list, and the
  page shows the three labels that have podcasts, in the order of the list.
\<close>

theorem Discover_no_empty_section_witness:
  "''business'' \<in> set podcastCategories
   \<and> ''business'' \<notin> set (map categoryType (podcasts sample_ctx))
   \<and> fetchCategoryPodcasts sample_ctx ''business'' = Some []
   \<and> map section_key (sections_of (Discover (Some (getTrendingPodcasts sample_ctx))
                                    (fetchCategoryPodcasts sample_ctx)))
       = [''comedy'', ''music'', ''arts'']"
proof -
  have l: "''business'' \<in> set podcastCategories"
    by (simp add: podcastCategories_def)
  have z: "\<forall>p \<in> set (podcasts sample_ctx). categoryType p \<noteq> ''business''"
    by (simp add: sample_ctx_def sample_def)
  have z': "''business'' \<notin> set (map categoryType (podcasts sample_ctx))"
    by (simp add: sample_ctx_def sample_def)
  have secs: "map section_key (sections_of (Discover (Some (getTrendingPodcasts sample_ctx))
                                    (fetchCategoryPodcasts sample_ctx)))
       = [''comedy'', ''music'', ''arts'']"
    by (simp add: sections_of_def Discover_def fetchCategoryPodcasts_at podcastCategories_def
      List.map_filter_simps getPodcastByCategoryType_def sample_ctx_def sample_def)
  from Discover_no_empty_section [OF l z, of "Some (getTrendingPodcasts sample_ctx)"] l z' secs
  show ?thesis by simp
qed

end
